theory Spec2Isabelle
  imports Complex_Main "HOL-Library.AList" "HOL-Library.Multiset"
begin

section \<open>JavaScript values used by the matchmaking core\<close>

text \<open>
  The server is TypeScript on socket.io. Socket ids and user ids are strings. A JavaScript
  \<open>Map\<close> iterates in insertion order, \<open>set\<close> on a present key keeps the key's place and
  \<open>delete\<close> removes the key: this is an association list under \<open>AList.update\<close>,
  \<open>AList.delete\<close> and \<open>map_of\<close>. A \<open>Set\<close> of strings used for iteration (a tier bucket)
  is a list without repetition; a \<open>Set\<close> used only through \<open>has\<close> (a block list) is a
  HOL set. Numbers that hold milliseconds or counters are integers; a match score, which the
  source computes in double precision, is an exact rational here.
\<close>

definition truthy :: "string \<Rightarrow> bool" where
  "truthy s = (s \<noteq> [])"

definition truthy_opt :: "string option \<Rightarrow> bool" where
  "truthy_opt v = (case v of None \<Rightarrow> False | Some s \<Rightarrow> truthy s)"

definition Set_add :: "'a \<Rightarrow> 'a list \<Rightarrow> 'a list" where
  "Set_add x xs = (if x \<in> set xs then xs else xs @ [x])"

definition Set_delete :: "'a \<Rightarrow> 'a list \<Rightarrow> 'a list" where
  "Set_delete x xs = removeAll x xs"

text \<open>
  \<open>Date.now()\<close> and \<open>Math.random()\<close> are read from an environment: the n-th read of the
  clock returns \<open>clock e n\<close>, the n-th draw returns \<open>random e n\<close>, and each read advances
  its counter.
\<close>

record Env =
  clock :: "nat \<Rightarrow> int"
  clock_reads :: nat
  random :: "nat \<Rightarrow> rat"
  random_draws :: nat

definition Date_now :: "Env \<Rightarrow> int \<times> Env" where
  "Date_now e = (clock e (clock_reads e), e\<lparr>clock_reads := Suc (clock_reads e)\<rparr>)"

definition Math_random :: "Env \<Rightarrow> rat \<times> Env" where
  "Math_random e = (random e (random_draws e), e\<lparr>random_draws := Suc (random_draws e)\<rparr>)"

section \<open>The matchmaking queue (class MatchmakingQueue)\<close>

record Preferences =
  gender :: "string option"
  region :: "string option"
  tier :: "string option"
  blockedUserIds :: "string list option"

record QueuedUser =
  socketId :: string
  userId :: string
  preferences :: "Preferences option"
  timestamp :: int
  waitTime :: int
  blockedUsers :: "string set option"
  searchAttempts :: nat

record MatchCandidate =
  user :: QueuedUser
  score :: rat
  tierMatch :: bool
  waitTimeBonus :: int

record MatchmakingQueue =
  queue :: "(string \<times> QueuedUser) list"
  matches :: "(string \<times> string) list"
  tierBuckets :: "(string \<times> string list) list"
  lastMatchAttempt :: "(string \<times> int) list"
  socketIdToUserId :: "(string \<times> string) list"

text \<open>The constructor: three empty tier buckets, in this order.\<close>

definition new_MatchmakingQueue :: MatchmakingQueue where
  "new_MatchmakingQueue =
     \<lparr>queue = [], matches = [],
      tierBuckets = [(''free'', []), (''premium'', []), (''pro'', [])],
      lastMatchAttempt = [], socketIdToUserId = []\<rparr>"

text \<open>\<open>preferences?.tier || 'free'\<close>, \<open>preferences?.region\<close>, \<open>preferences?.gender\<close>.\<close>

definition tier_or_free :: "Preferences option \<Rightarrow> string" where
  "tier_or_free p =
     (case p of
        None \<Rightarrow> ''free''
      | Some pr \<Rightarrow> (case tier pr of None \<Rightarrow> ''free'' | Some t \<Rightarrow> if truthy t then t else ''free''))"

definition pref_region :: "QueuedUser \<Rightarrow> string option" where
  "pref_region u = (case preferences u of None \<Rightarrow> None | Some p \<Rightarrow> region p)"

definition pref_gender :: "QueuedUser \<Rightarrow> string option" where
  "pref_gender u = (case preferences u of None \<Rightarrow> None | Some p \<Rightarrow> gender p)"

definition pref_tier :: "QueuedUser \<Rightarrow> string option" where
  "pref_tier u = (case preferences u of None \<Rightarrow> None | Some p \<Rightarrow> tier p)"

text \<open>\<open>set?.has(x)\<close> on an optional set.\<close>

definition has_opt :: "string set option \<Rightarrow> string \<Rightarrow> bool" where
  "has_opt s x = (case s of None \<Rightarrow> False | Some b \<Rightarrow> x \<in> b)"

definition isMatched :: "string \<Rightarrow> MatchmakingQueue \<Rightarrow> bool" where
  "isMatched sid q = (map_of (matches q) sid \<noteq> None)"

definition getMatch :: "string \<Rightarrow> MatchmakingQueue \<Rightarrow> string option" where
  "getMatch sid q = map_of (matches q) sid"

definition getQueueSize :: "MatchmakingQueue \<Rightarrow> nat" where
  "getQueueSize q = length (queue q)"

text \<open>
  \<open>removeUser(socketId, keepMatch = false)\<close>. The match entries are cleared only when the
  partner id read from \<open>matches\<close> is truthy, as the source tests \<open>if (matchedSocketId)\<close>.
\<close>

definition removeUser :: "string \<Rightarrow> bool \<Rightarrow> MatchmakingQueue \<Rightarrow> MatchmakingQueue" where
  "removeUser sid keepMatch q =
     (let q1 =
        (case map_of (queue q) sid of
           None \<Rightarrow> q
         | Some u \<Rightarrow>
             (let t = tier_or_free (preferences u) in
              q\<lparr>queue := AList.delete sid (queue q),
                socketIdToUserId := AList.delete sid (socketIdToUserId q),
                tierBuckets :=
                  (case map_of (tierBuckets q) t of
                     None \<Rightarrow> tierBuckets q
                   | Some bucket \<Rightarrow> AList.update t (Set_delete sid bucket) (tierBuckets q))\<rparr>));
          q2 =
        (if \<not> keepMatch then
           (case map_of (matches q1) sid of
              None \<Rightarrow> q1
            | Some matchedSocketId \<Rightarrow>
                if truthy matchedSocketId
                then q1\<lparr>matches := AList.delete matchedSocketId (AList.delete sid (matches q1))\<rparr>
                else q1)
         else q1)
      in q2\<lparr>lastMatchAttempt := AList.delete sid (lastMatchAttempt q2)\<rparr>)"

text \<open>\<open>addUser(socketId, userId, preferences?)\<close>; \<open>now\<close> is the value of \<open>Date.now()\<close>.\<close>

definition addUser ::
  "int \<Rightarrow> string \<Rightarrow> string \<Rightarrow> Preferences option \<Rightarrow> MatchmakingQueue \<Rightarrow> MatchmakingQueue" where
  "addUser now sid uid prefs q0 =
     (let q = removeUser sid False q0;
          t = tier_or_free prefs;
          blockedUsersSet =
            (case prefs of
               None \<Rightarrow> {}
             | Some p \<Rightarrow> (case blockedUserIds p of None \<Rightarrow> {} | Some ids \<Rightarrow> set ids));
          spread =
            (case prefs of
               None \<Rightarrow> \<lparr>gender = None, region = None, tier = None, blockedUserIds = None\<rparr>
             | Some p \<Rightarrow> p);
          u = \<lparr>socketId = sid, userId = uid,
               preferences = Some (spread\<lparr>tier := Some t\<rparr>),
               timestamp = now, waitTime = 0,
               blockedUsers = Some blockedUsersSet, searchAttempts = 0\<rparr>
      in q\<lparr>queue := AList.update sid u (queue q),
           socketIdToUserId := AList.update sid uid (socketIdToUserId q),
           tierBuckets :=
             (case map_of (tierBuckets q) t of
                None \<Rightarrow> tierBuckets q
              | Some bucket \<Rightarrow> AList.update t (Set_add sid bucket) (tierBuckets q))\<rparr>)"

text \<open>\<open>createMatch\<close>: both directions are written, then both are removed from the queue
  with \<open>keepMatch = true\<close>. There is no test that either side is unmatched.\<close>

definition createMatch :: "string \<Rightarrow> string \<Rightarrow> MatchmakingQueue \<Rightarrow> MatchmakingQueue" where
  "createMatch socketId1 socketId2 q =
     removeUser socketId2 True
       (removeUser socketId1 True
          (q\<lparr>matches := AList.update socketId2 socketId1
                          (AList.update socketId1 socketId2 (matches q))\<rparr>))"

definition clearMatch :: "string \<Rightarrow> string \<Rightarrow> MatchmakingQueue \<Rightarrow> MatchmakingQueue" where
  "clearMatch socketId1 socketId2 q =
     q\<lparr>matches := AList.delete socketId2 (AList.delete socketId1 (matches q))\<rparr>"

definition getUserWaitTime :: "string \<Rightarrow> Env \<Rightarrow> MatchmakingQueue \<Rightarrow> int \<times> Env" where
  "getUserWaitTime sid e q =
     (case map_of (queue q) sid of
        None \<Rightarrow> (0, e)
      | Some u \<Rightarrow> (let (now, e1) = Date_now e in (now - timestamp u, e1)))"

subsection \<open>Compatibility and scoring\<close>

definition hasRegionFilter :: "QueuedUser \<Rightarrow> bool" where
  "hasRegionFilter u = (truthy_opt (pref_region u) \<and> pref_region u \<noteq> Some ''any'')"

definition hasGenderFilter :: "QueuedUser \<Rightarrow> bool" where
  "hasGenderFilter u = (truthy_opt (pref_gender u) \<and> pref_gender u \<noteq> Some ''any'')"

definition areCompatible :: "MatchmakingQueue \<Rightarrow> QueuedUser \<Rightarrow> QueuedUser \<Rightarrow> bool" where
  "areCompatible q u candidate =
     (if socketId candidate = socketId u then False
      else if map_of (matches q) (socketId candidate) \<noteq> None then False
      else if has_opt (blockedUsers u) (userId candidate)
              \<or> has_opt (blockedUsers candidate) (userId u) then False
      else if hasRegionFilter u \<and> preferences u \<noteq> None
              \<and> (let matchRegion = pref_region candidate
                  in \<not> truthy_opt matchRegion \<or> matchRegion = Some ''any''
                     \<or> pref_region u \<noteq> matchRegion) then False
      else if hasGenderFilter u \<and> preferences u \<noteq> None
              \<and> (let matchGender = pref_gender candidate
                  in \<not> truthy_opt matchGender \<or> matchGender = Some ''any''
                     \<or> pref_gender u \<noteq> matchGender) then False
      else True)"

text \<open>\<open>calculateMatchScore\<close> reads the clock twice and draws one random number.\<close>

definition calculateMatchScore ::
  "QueuedUser \<Rightarrow> QueuedUser \<Rightarrow> bool \<Rightarrow> Env \<Rightarrow> rat \<times> Env" where
  "calculateMatchScore u candidate tm e =
     (let score0 = (if tm then 100 else 50);
          (now1, e1) = Date_now e;
          userWaitTime = now1 - timestamp u;
          (now2, e2) = Date_now e1;
          candidateWaitTime = now2 - timestamp candidate;
          avgWaitTime = of_int (userWaitTime + candidateWaitTime) / 2;
          waitBonus = min 50 (avgWaitTime / 600);
          attemptsPenalty = min 20 (of_nat (searchAttempts candidate) * 2);
          (r, e3) = Math_random e2
      in (score0 + waitBonus - attemptsPenalty + r * 10, e3))"

subsection \<open>findMatch\<close>

text \<open>
  The loop over one tier bucket. Phase 1 skips the caller's own id before the lookup
  (\<open>skipSelf\<close>) and scores with \<open>tierMatch = true\<close>; the cross-tier loop has no such test
  and scores with \<open>tierMatch = false\<close>.
\<close>

fun bucket_loop ::
  "MatchmakingQueue \<Rightarrow> string \<Rightarrow> QueuedUser \<Rightarrow> bool \<Rightarrow> bool \<Rightarrow> string list
     \<Rightarrow> MatchCandidate list \<times> Env \<Rightarrow> MatchCandidate list \<times> Env" where
  "bucket_loop q sid u skipSelf tm [] acc = acc"
| "bucket_loop q sid u skipSelf tm (candidateSocketId # rest) (candidates, e) =
     (if skipSelf \<and> candidateSocketId = sid then bucket_loop q sid u skipSelf tm rest (candidates, e)
      else
        (case map_of (queue q) candidateSocketId of
           None \<Rightarrow> bucket_loop q sid u skipSelf tm rest (candidates, e)
         | Some candidate \<Rightarrow>
             if areCompatible q u candidate then
               (let (sc, e1) = calculateMatchScore u candidate tm e
                in bucket_loop q sid u skipSelf tm rest
                     (candidates @ [\<lparr>user = candidate, score = sc, tierMatch = tm,
                                     waitTimeBonus = waitTime candidate\<rparr>], e1))
             else bucket_loop q sid u skipSelf tm rest (candidates, e)))"

text \<open>Phase 2: every bucket whose tier is not the caller's.\<close>

fun cross_tier_loop ::
  "MatchmakingQueue \<Rightarrow> string \<Rightarrow> QueuedUser \<Rightarrow> string \<Rightarrow> (string \<times> string list) list
     \<Rightarrow> MatchCandidate list \<times> Env \<Rightarrow> MatchCandidate list \<times> Env" where
  "cross_tier_loop q sid u userTier [] acc = acc"
| "cross_tier_loop q sid u userTier ((t, bucket) # rest) acc =
     (if t = userTier then cross_tier_loop q sid u userTier rest acc
      else cross_tier_loop q sid u userTier rest (bucket_loop q sid u False False bucket acc))"

text \<open>Phase 3: the whole queue, with only the matched test and the block lists.\<close>

fun relaxed_loop ::
  "MatchmakingQueue \<Rightarrow> string \<Rightarrow> QueuedUser \<Rightarrow> string \<Rightarrow> QueuedUser list
     \<Rightarrow> MatchCandidate list \<times> Env \<Rightarrow> MatchCandidate list \<times> Env" where
  "relaxed_loop q sid u userTier [] acc = acc"
| "relaxed_loop q sid u userTier (candidate # rest) (candidates, e) =
     (if socketId candidate = sid then relaxed_loop q sid u userTier rest (candidates, e)
      else if map_of (matches q) (socketId candidate) \<noteq> None
        then relaxed_loop q sid u userTier rest (candidates, e)
      else if has_opt (blockedUsers u) (userId candidate)
              \<or> has_opt (blockedUsers candidate) (userId u)
        then relaxed_loop q sid u userTier rest (candidates, e)
      else
        (let tm = (pref_tier candidate = Some userTier);
             (sc, e1) = calculateMatchScore u candidate tm e
         in relaxed_loop q sid u userTier rest
              (candidates @ [\<lparr>user = candidate, score = sc, tierMatch = tm,
                              waitTimeBonus = waitTime candidate\<rparr>], e1)))"

text \<open>The weighted draw: subtract scores from \<open>random\<close> until it is not positive.\<close>

fun select_loop :: "rat \<Rightarrow> MatchCandidate list \<Rightarrow> QueuedUser option" where
  "select_loop r [] = None"
| "select_loop r (c # cs) =
     (let r1 = r - score c in if r1 \<le> 0 then Some (user c) else select_loop r1 cs)"

text \<open>\<open>candidates.sort((a, b) => b.score - a.score)\<close>: stable, highest score first.\<close>

definition sort_by_score :: "MatchCandidate list \<Rightarrow> MatchCandidate list" where
  "sort_by_score cs = sort_key (\<lambda>c. - score c) cs"

text \<open>
  The caller's entry after \<open>user.waitTime = Date.now() - user.timestamp\<close> and
  \<open>user.searchAttempts++\<close>, and the three collection phases of \<open>findMatch\<close>.
\<close>

definition touch_user :: "int \<Rightarrow> QueuedUser \<Rightarrow> QueuedUser" where
  "touch_user now u = u\<lparr>waitTime := now - timestamp u, searchAttempts := Suc (searchAttempts u)\<rparr>"

definition collect_candidates ::
  "MatchmakingQueue \<Rightarrow> string \<Rightarrow> QueuedUser \<Rightarrow> Env \<Rightarrow> MatchCandidate list \<times> Env" where
  "collect_candidates q sid u e =
     (let userTier = tier_or_free (preferences u);
          p1 = (case map_of (tierBuckets q) userTier of
                  None \<Rightarrow> ([], e)
                | Some sameTierBucket \<Rightarrow> bucket_loop q sid u True True sameTierBucket ([], e));
          shouldTryCrossTier = (fst p1 = [] \<or> waitTime u > 10000);
          p2 = (if shouldTryCrossTier then cross_tier_loop q sid u userTier (tierBuckets q) p1
                else p1)
      in if fst p2 = [] then relaxed_loop q sid u userTier (map snd (queue q)) p2 else p2)"

definition findMatch ::
  "string \<Rightarrow> Env \<Rightarrow> MatchmakingQueue \<Rightarrow> QueuedUser option \<times> Env \<times> MatchmakingQueue" where
  "findMatch sid e q =
     (if isMatched sid q then (None, e, q)
      else
        (case map_of (queue q) sid of
           None \<Rightarrow> (None, e, q)
         | Some u0 \<Rightarrow>
             (let (now, e1) = Date_now e;
                  u = touch_user now u0;
                  q1 = q\<lparr>queue := AList.update sid u (queue q)\<rparr>;
                  (candidates, e2) = collect_candidates q1 sid u e1
              in if candidates = [] then (None, e2, q1)
                 else
                   (let sorted = sort_by_score candidates;
                        topCandidates = take (min 5 (length sorted)) sorted;
                        totalScore = sum_list (map score topCandidates);
                        (r, e3) = Math_random e2
                    in (case select_loop (r * totalScore) topCandidates of
                          Some m \<Rightarrow> (Some m, e3, q1)
                        | None \<Rightarrow>
                            (case topCandidates of
                               [] \<Rightarrow> (None, e3, q1)
                             | c # _ \<Rightarrow> (Some (user c), e3, q1)))))))"

subsection \<open>Histories of queue operations\<close>

datatype queue_op =
    AddUser int string string "Preferences option"
  | RemoveUser string bool
  | FindMatch string Env
  | CreateMatch string string
  | ClearMatch string string

fun apply_op :: "queue_op \<Rightarrow> MatchmakingQueue \<Rightarrow> MatchmakingQueue" where
  "apply_op (AddUser now sid uid prefs) q = addUser now sid uid prefs q"
| "apply_op (RemoveUser sid keepMatch) q = removeUser sid keepMatch q"
| "apply_op (FindMatch sid e) q = snd (snd (findMatch sid e q))"
| "apply_op (CreateMatch s1 s2) q = createMatch s1 s2 q"
| "apply_op (ClearMatch s1 s2) q = clearMatch s1 s2 q"

definition run_ops :: "queue_op list \<Rightarrow> MatchmakingQueue \<Rightarrow> MatchmakingQueue" where
  "run_ops ops q = foldl (\<lambda>s opn. apply_op opn s) q ops"





text \<open>
  The way the socket handlers use the pairing table: \<open>createMatch\<close> is reached only for a
  caller and a candidate that are both unmatched (\<open>findMatch\<close> returns nothing for a matched
  caller and never proposes a matched candidate), and \<open>clearMatch\<close> is called with a
  session and the partner just read by \<open>getMatch\<close>.
\<close>

fun op_guard :: "queue_op \<Rightarrow> MatchmakingQueue \<Rightarrow> bool" where
  "op_guard (CreateMatch s1 s2) q = (\<not> isMatched s1 q \<and> \<not> isMatched s2 q)"
| "op_guard (ClearMatch s1 s2) q = (getMatch s1 q = Some s2)"
| "op_guard _ q = True"

fun guarded :: "queue_op list \<Rightarrow> MatchmakingQueue \<Rightarrow> bool" where
  "guarded [] q = True"
| "guarded (opn # ops) q = (op_guard opn q \<and> guarded ops (apply_op opn q))"

definition pairing_sym :: "MatchmakingQueue \<Rightarrow> bool" where
  "pairing_sym q = (\<forall>a b. map_of (matches q) a = Some b \<longrightarrow> map_of (matches q) b = Some a)"

text \<open>Concrete inputs used to run the model.\<close>

definition env0 :: Env where
  "env0 = \<lparr>clock = (\<lambda>n. 2000 + int n), clock_reads = 0, random = (\<lambda>n. 1 / 2), random_draws = 0\<rparr>"


definition history2 :: "queue_op list" where
  "history2 =
     [AddUser 1000 ''s1'' ''u1'' None, AddUser 1001 ''s2'' ''u2'' None, FindMatch ''s1'' env0,
      CreateMatch ''s1'' ''s2'', RemoveUser ''s3'' False]"

definition user_eu :: QueuedUser where
  "user_eu =
     \<lparr>socketId = ''s1'', userId = ''u1'',
      preferences = Some \<lparr>gender = Some ''any'', region = Some ''eu'', tier = Some ''free'',
                           blockedUserIds = None\<rparr>,
      timestamp = 1000, waitTime = 0, blockedUsers = Some {''u9''}, searchAttempts = 0\<rparr>"

definition cand_eu :: QueuedUser where
  "cand_eu =
     \<lparr>socketId = ''s2'', userId = ''u2'',
      preferences = Some \<lparr>gender = Some ''male'', region = Some ''eu'', tier = Some ''pro'',
                           blockedUserIds = None\<rparr>,
      timestamp = 1001, waitTime = 0, blockedUsers = Some {}, searchAttempts = 0\<rparr>"

subsection \<open>The phases of findMatch, stated on their own\<close>















section \<open>The socket handlers\<close>

text \<open>
  The handlers of \<open>setupSocketIO\<close>, \<open>handleChat\<close> and \<open>handleMatchmaking\<close> run on one
  event loop, one callback at a time. The state they share is the queue singleton, the two
  module-level maps \<open>matchmakingIntervals\<close> and \<open>matchmakingCancelled\<close>, the closure
  variables of every \<open>handleMatchmaking\<close> call (a driver), the pending timeouts, the
  callbacks suspended at \<open>await Block.find\<close>, socket.io's table of sockets and the listeners
  registered for \<open>cancel-match\<close> and \<open>disconnect\<close>. Every \<open>emit\<close> call is recorded in
  \<open>outbox\<close> with its target: a socket (\<open>socket.emit\<close>) or a room (\<open>io.to(room).emit\<close>).
  Membership of the \<open>match-...\<close> rooms (\<open>join\<close>, \<open>leave\<close>) is not part of the state:
  nothing is ever emitted to those rooms. Log output is left out.
\<close>

datatype jsval = JStr string | JNum int | JBool bool | JUndefined

type_synonym payload = "(string \<times> jsval) list"

datatype target = ToSocket string | ToRoom string

type_synonym emission = "target \<times> string \<times> payload"

record FindMatchData =
  fm_userId :: string
  fm_preferences :: "Preferences option"

record SkipData =
  sk_userId :: "string option"
  sk_preferences :: "Preferences option"
  sk_autoRequeue :: "bool option"

datatype timer = PollTimer nat nat | RequeueTimer string "SkipData option" nat

datatype continuation = FindMatchCont string FindMatchData | RequeueCont string "SkipData option"

datatype listener = IndexHandler | DriverHandler nat

record Driver =
  d_socket :: string
  isCancelled :: bool
  checkCount :: nat
  matchmakingInterval :: "nat option"

record Server =
  mq :: MatchmakingQueue
  matchmakingIntervals :: "(string \<times> nat option) list"
  matchmakingCancelled :: "(string \<times> bool) list"
  drivers :: "Driver list"
  timers :: "(nat \<times> timer) list"
  next_timer :: nat
  awaiting :: "continuation list"
  sockets :: "(string \<times> bool) list"
  cancel_listeners :: "(string \<times> listener list) list"
  disconnect_listeners :: "(string \<times> listener list) list"
  outbox :: "emission list"
  env :: Env

definition new_Server :: "Env \<Rightarrow> Server" where
  "new_Server e =
     \<lparr>mq = new_MatchmakingQueue, matchmakingIntervals = [], matchmakingCancelled = [],
      drivers = [], timers = [], next_timer = 0, awaiting = [], sockets = [],
      cancel_listeners = [], disconnect_listeners = [], outbox = [], env = e\<rparr>"

definition emit :: "target \<Rightarrow> string \<Rightarrow> payload \<Rightarrow> Server \<Rightarrow> Server" where
  "emit t name p s = s\<lparr>outbox := outbox s @ [(t, name, p)]\<rparr>"

definition setTimeout :: "(nat \<Rightarrow> timer) \<Rightarrow> nat \<Rightarrow> Server \<Rightarrow> nat \<times> Server" where
  "setTimeout cb delay s =
     (next_timer s,
      s\<lparr>timers := timers s @ [(next_timer s, cb delay)], next_timer := Suc (next_timer s)\<rparr>)"

definition clearTimeout :: "nat \<Rightarrow> Server \<Rightarrow> Server" where
  "clearTimeout h s = s\<lparr>timers := AList.delete h (timers s)\<rparr>"

definition upd_driver :: "nat \<Rightarrow> (Driver \<Rightarrow> Driver) \<Rightarrow> Server \<Rightarrow> Server" where
  "upd_driver i f s = s\<lparr>drivers := (drivers s)[i := f (drivers s ! i)]\<rparr>"

definition cancelled_get :: "string \<Rightarrow> Server \<Rightarrow> bool" where
  "cancelled_get sid s = (map_of (matchmakingCancelled s) sid = Some True)"

definition cancelled_set :: "string \<Rightarrow> bool \<Rightarrow> Server \<Rightarrow> Server" where
  "cancelled_set sid b s = s\<lparr>matchmakingCancelled := AList.update sid b (matchmakingCancelled s)\<rparr>"

definition intervals_set :: "string \<Rightarrow> nat option \<Rightarrow> Server \<Rightarrow> Server" where
  "intervals_set sid v s = s\<lparr>matchmakingIntervals := AList.update sid v (matchmakingIntervals s)\<rparr>"

text \<open>\<open>io.sockets.sockets.get(id)\<close> and its \<open>connected\<close> flag.\<close>

definition socket_exists :: "string \<Rightarrow> Server \<Rightarrow> bool" where
  "socket_exists sid s = (map_of (sockets s) sid \<noteq> None)"

definition socket_connected :: "string \<Rightarrow> Server \<Rightarrow> bool" where
  "socket_connected sid s = (map_of (sockets s) sid = Some True)"

subsection \<open>handleChat: send-message\<close>

text \<open>\<open>isProfane\<close> stands for \<open>filter.isProfane\<close> of the bad-words package.\<close>

definition send_message :: "(string \<Rightarrow> bool) \<Rightarrow> string \<Rightarrow> string \<Rightarrow> Server \<Rightarrow> Server" where
  "send_message isProfane sid message s =
     (case getMatch sid (mq s) of
        None \<Rightarrow> emit (ToSocket sid) ''error'' [(''message'', JStr ''No active match'')] s
      | Some matchSocketId \<Rightarrow>
          if \<not> truthy matchSocketId
          then emit (ToSocket sid) ''error'' [(''message'', JStr ''No active match'')] s
          else if isProfane message
          then emit (ToSocket sid) ''message-blocked'' [(''reason'', JStr ''Profanity detected'')] s
          else
            (let (t1, e1) = Date_now (env s);
                 s1 = emit (ToSocket sid) ''receive-message''
                        [(''message'', JStr message), (''timestamp'', JNum t1),
                         (''senderId'', JStr sid)] (s\<lparr>env := e1\<rparr>);
                 (t2, e2) = Date_now (env s1);
                 s2 = s1\<lparr>env := e2\<rparr>
             in if socket_exists matchSocketId s2 \<and> socket_connected matchSocketId s2
                then emit (ToSocket matchSocketId) ''receive-message''
                       [(''message'', JStr message), (''timestamp'', JNum t2),
                        (''senderId'', JStr sid)] s2
                else emit (ToRoom matchSocketId) ''receive-message''
                       [(''message'', JStr message), (''timestamp'', JNum t2),
                        (''senderId'', JStr sid)] s2))"

subsection \<open>handleMatchmaking: the search driver\<close>

fun position_loop :: "MatchmakingQueue \<Rightarrow> string \<Rightarrow> QueuedUser \<Rightarrow> string list \<Rightarrow> int \<Rightarrow> int" where
  "position_loop q sid u [] position = position"
| "position_loop q sid u (candidateSocketId # rest) position =
     (if candidateSocketId = sid then position
      else
        (case map_of (queue q) candidateSocketId of
           None \<Rightarrow> position_loop q sid u rest position
         | Some candidate \<Rightarrow>
             if areCompatible q u candidate then position_loop q sid u rest (position + 1)
             else position_loop q sid u rest position))"

definition getQueuePosition :: "string \<Rightarrow> MatchmakingQueue \<Rightarrow> int" where
  "getQueuePosition sid q =
     (case map_of (queue q) sid of
        None \<Rightarrow> - 1
      | Some u \<Rightarrow>
          (case map_of (tierBuckets q) (tier_or_free (preferences u)) of
             None \<Rightarrow> - 1
           | Some sameTierBucket \<Rightarrow> position_loop q sid u sameTierBucket 0))"

text \<open>The three places where \<open>checkForMatch\<close> stops its own driver.\<close>

definition stop_interval :: "nat \<Rightarrow> Server \<Rightarrow> Server" where
  "stop_interval i s =
     (case matchmakingInterval (drivers s ! i) of
        None \<Rightarrow> s
      | Some h \<Rightarrow>
          intervals_set (d_socket (drivers s ! i)) None
            (upd_driver i (\<lambda>d. d\<lparr>matchmakingInterval := None\<rparr>) (clearTimeout h s)))"

definition stop_driver :: "nat \<Rightarrow> Server \<Rightarrow> Server" where
  "stop_driver i s =
     stop_interval i
       (cancelled_set (d_socket (drivers s ! i)) True
          (upd_driver i (\<lambda>d. d\<lparr>isCancelled := True\<rparr>) s))"

definition checkForMatch :: "nat \<Rightarrow> Server \<Rightarrow> Server" where
  "checkForMatch i s =
     (let sid = d_socket (drivers s ! i) in
      if isCancelled (drivers s ! i) \<or> cancelled_get sid s then s
      else if map_of (queue (mq s)) sid = None then stop_driver i s
      else if isMatched sid (mq s) then stop_driver i s
      else
        (let s1 = upd_driver i (\<lambda>d. d\<lparr>checkCount := Suc (checkCount d)\<rparr>) s;
             (m, e1, q1) = findMatch sid (env s1) (mq s1);
             s2 = s1\<lparr>env := e1, mq := q1\<rparr>
         in case m of
              Some match \<Rightarrow>
                (let msid = socketId match;
                     s3 = cancelled_set msid True
                            (cancelled_set sid True
                               (upd_driver i (\<lambda>d. d\<lparr>isCancelled := True\<rparr>) s2));
                     s4 = stop_interval i s3;
                     s5 = (case map_of (matchmakingIntervals s4) msid of
                             Some (Some h) \<Rightarrow> intervals_set msid None (clearTimeout h s4)
                           | _ \<Rightarrow> s4);
                     s6 = s5\<lparr>mq := createMatch sid msid (mq s5)\<rparr>;
                     (userWaitTime, e2) = getUserWaitTime sid (env s6) (mq s6);
                     s7 = emit (ToSocket sid) ''match-found''
                            [(''matchSocketId'', JStr msid), (''matchUserId'', JStr (userId match)),
                             (''waitTime'', JNum (waitTime match))] (s6\<lparr>env := e2\<rparr>);
                     s8 = (if socket_exists msid s7 \<and> socket_connected msid s7
                           then emit (ToSocket msid) ''match-found''
                                  [(''matchSocketId'', JStr sid), (''matchUserId'', JStr sid),
                                   (''waitTime'', JNum userWaitTime)] s7
                           else emit (ToRoom msid) ''match-found''
                                  [(''matchSocketId'', JStr sid), (''matchUserId'', JStr sid),
                                   (''waitTime'', JNum userWaitTime)] s7);
                     s9 = s8\<lparr>cancel_listeners := AList.update sid [] (cancel_listeners s8)\<rparr>;
                     s10 = (if socket_exists msid s9 then emit (ToSocket msid) ''matchmaking-stopped'' [] s9
                            else emit (ToRoom msid) ''matchmaking-stopped'' [] s9)
                 in upd_driver i (\<lambda>d. d\<lparr>checkCount := 0\<rparr>) s10)
            | None \<Rightarrow>
                (let queuePosition = getQueuePosition sid (mq s2)
                 in emit (ToSocket sid) ''searching''
                      [(''message'', JStr ''Finding a match...''),
                       (''queuePosition'', if queuePosition \<ge> 0 then JNum queuePosition else JUndefined),
                       (''checkCount'', JNum (int (checkCount (drivers s2 ! i))))] s2)))"

definition getPollingInterval :: "nat \<Rightarrow> Server \<Rightarrow> nat" where
  "getPollingInterval i s =
     (let queueSize = getQueueSize (mq s); cc = checkCount (drivers s ! i) in
      if queueSize = 1 then min 10000 (2 ^ (cc div 5) * 1000)
      else if queueSize \<le> 2 then 500
      else if cc < 5 then 1000
      else if cc < 15 then 2000
      else 3000)"

definition scheduleNext :: "nat \<Rightarrow> Server \<Rightarrow> Server" where
  "scheduleNext i s =
     (let sid = d_socket (drivers s ! i) in
      if isCancelled (drivers s ! i) then s
      else if isMatched sid (mq s) then upd_driver i (\<lambda>d. d\<lparr>isCancelled := True\<rparr>) s
      else
        (let (h, s1) = setTimeout (PollTimer i) (getPollingInterval i s) s
         in intervals_set sid (Some h) (upd_driver i (\<lambda>d. d\<lparr>matchmakingInterval := Some h\<rparr>) s1)))"

text \<open>The callback given to \<open>setTimeout\<close> by \<open>scheduleNext\<close>.\<close>

definition poll_fire :: "nat \<Rightarrow> Server \<Rightarrow> Server" where
  "poll_fire i s =
     (if i < length (drivers s) then
        (let sid = d_socket (drivers s ! i) in
         if \<not> isCancelled (drivers s ! i) \<and> \<not> cancelled_get sid s \<and> \<not> isMatched sid (mq s) then
           (let s1 = checkForMatch i s in
            if \<not> isCancelled (drivers s1 ! i) \<and> \<not> cancelled_get sid s1 \<and> \<not> isMatched sid (mq s1)
            then scheduleNext i s1 else s1)
         else s)
      else s)"

definition startMatchmaking :: "nat \<Rightarrow> Server \<Rightarrow> Server" where
  "startMatchmaking i s =
     (let s0 = (case matchmakingInterval (drivers s ! i) of
                  None \<Rightarrow> s
                | Some h \<Rightarrow> upd_driver i (\<lambda>d. d\<lparr>matchmakingInterval := None\<rparr>) (clearTimeout h s));
          s1 = checkForMatch i s0
      in if isCancelled (drivers s1 ! i) then s1 else scheduleNext i s1)"

definition add_listener :: "string \<Rightarrow> listener \<Rightarrow> (string \<times> listener list) list
                              \<Rightarrow> (string \<times> listener list) list" where
  "add_listener sid l reg =
     AList.update sid ((case map_of reg sid of None \<Rightarrow> [] | Some ls \<Rightarrow> ls) @ [l]) reg"

definition handleMatchmaking :: "string \<Rightarrow> Server \<Rightarrow> Server" where
  "handleMatchmaking sid s =
     (let i = length (drivers s);
          s1 = s\<lparr>drivers := drivers s
                    @ [\<lparr>d_socket = sid, isCancelled = False, checkCount = 0,
                         matchmakingInterval = None\<rparr>]\<rparr>;
          s2 = cancelled_set sid False (intervals_set sid None s1);
          s3 = startMatchmaking i s2
      in s3\<lparr>cancel_listeners := add_listener sid (DriverHandler i) (cancel_listeners s3),
            disconnect_listeners := add_listener sid (DriverHandler i) (disconnect_listeners s3)\<rparr>)"

text \<open>The \<open>cancel-match\<close> and \<open>disconnect\<close> listeners that \<open>handleMatchmaking\<close> registers.\<close>

definition driver_cancel_match :: "nat \<Rightarrow> Server \<Rightarrow> Server" where
  "driver_cancel_match i s =
     (let sid = d_socket (drivers s ! i);
          s1 = stop_driver i s;
          s2 = s1\<lparr>mq := removeUser sid False (mq s1)\<rparr>
      in emit (ToSocket sid) ''match-cancelled'' [] s2)"

definition driver_disconnect :: "nat \<Rightarrow> Server \<Rightarrow> Server" where
  "driver_disconnect i s =
     (let sid = d_socket (drivers s ! i);
          s1 = stop_driver i s;
          s2 = s1\<lparr>matchmakingIntervals := AList.delete sid (matchmakingIntervals s1),
                  matchmakingCancelled := AList.delete sid (matchmakingCancelled s1)\<rparr>
      in if \<not> isMatched sid (mq s2) then s2\<lparr>mq := removeUser sid False (mq s2)\<rparr> else s2)"

subsection \<open>setupSocketIO: cancel-match, skip, disconnect, find-match\<close>

definition index_cancel_match :: "string \<Rightarrow> Server \<Rightarrow> Server" where
  "index_cancel_match sid s =
     emit (ToSocket sid) ''match-cancelled'' [] (s\<lparr>mq := removeUser sid False (mq s)\<rparr>)"

definition index_disconnect :: "string \<Rightarrow> Server \<Rightarrow> Server" where
  "index_disconnect sid s = s\<lparr>mq := removeUser sid False (mq s)\<rparr>"

text \<open>\<open>data?.autoRequeue || false\<close> and the test \<open>data?.autoRequeue && data?.userId\<close>.\<close>

definition autoRequeue_flag :: "SkipData option \<Rightarrow> bool" where
  "autoRequeue_flag data = (case data of None \<Rightarrow> False | Some d \<Rightarrow> sk_autoRequeue d = Some True)"

definition requeue_requested :: "SkipData option \<Rightarrow> bool" where
  "requeue_requested data =
     (case data of
        None \<Rightarrow> False
      | Some d \<Rightarrow> sk_autoRequeue d = Some True \<and> truthy_opt (sk_userId d))"

definition skip_matched :: "string \<Rightarrow> string \<Rightarrow> SkipData option \<Rightarrow> Server \<Rightarrow> Server" where
  "skip_matched sid matchSocketId data s =
     (let s1 = (if socket_exists matchSocketId s
                then emit (ToSocket matchSocketId) ''match-ended''
                       [(''reason'', JStr ''skipped''), (''autoRequeue'', JBool True),
                        (''fromSocketId'', JStr sid), (''disconnected'', JBool True)] s
                else emit (ToRoom matchSocketId) ''match-ended''
                       [(''reason'', JStr ''skipped''), (''autoRequeue'', JBool True),
                        (''fromSocketId'', JStr sid), (''disconnected'', JBool True)] s);
          s2 = emit (ToSocket sid) ''match-ended''
                 [(''reason'', JStr ''skipped''), (''autoRequeue'', JBool (autoRequeue_flag data)),
                  (''fromSocketId'', JStr sid), (''disconnected'', JBool True)] s1;
          skippingUserInterval = map_of (matchmakingIntervals s2) sid;
          matchedUserInterval = map_of (matchmakingIntervals s2) matchSocketId;
          s3 = (case skippingUserInterval of
                  Some (Some h) \<Rightarrow> cancelled_set sid True (intervals_set sid None (clearTimeout h s2))
                | _ \<Rightarrow> s2);
          s4 = (case matchedUserInterval of
                  Some (Some h) \<Rightarrow>
                    cancelled_set matchSocketId True
                      (intervals_set matchSocketId None (clearTimeout h s3))
                | _ \<Rightarrow> s3);
          s5 = s4\<lparr>mq := clearMatch sid matchSocketId (mq s4)\<rparr>;
          s6 = (if isMatched sid (mq s5) \<or> isMatched matchSocketId (mq s5)
                then s5\<lparr>mq := removeUser matchSocketId False (removeUser sid False (mq s5))\<rparr>
                else s5)
      in if requeue_requested data then snd (setTimeout (RequeueTimer sid data) 200 s6) else s6)"

definition skip_unmatched :: "string \<Rightarrow> Server \<Rightarrow> Server" where
  "skip_unmatched sid s =
     emit (ToSocket sid) ''match-ended''
       [(''reason'', JStr ''skipped''), (''autoRequeue'', JBool False)]
       (s\<lparr>mq := removeUser sid False (mq s)\<rparr>)"

text \<open>The \<open>skip\<close> handler: \<open>if (matchSocketId) {...} else {...}\<close>.\<close>

definition skip :: "string \<Rightarrow> SkipData option \<Rightarrow> Server \<Rightarrow> Server" where
  "skip sid data s =
     (case getMatch sid (mq s) of
        None \<Rightarrow> skip_unmatched sid s
      | Some matchSocketId \<Rightarrow>
          if truthy matchSocketId then skip_matched sid matchSocketId data s
          else skip_unmatched sid s)"

text \<open>
  The callback of the 200 ms timeout: up to \<open>await Block.find\<close> it runs at once; the rest
  runs when the fetch settles, with the fetched block documents or with a failure.
\<close>

definition requeue_fire :: "string \<Rightarrow> SkipData option \<Rightarrow> Server \<Rightarrow> Server" where
  "requeue_fire sid data s =
     (let s1 = (if truthy_opt (getMatch sid (mq s))
                then s\<lparr>mq := removeUser sid False (mq s)\<rparr> else s)
      in if \<not> truthy_opt (getMatch sid (mq s1))
         then s1\<lparr>awaiting := awaiting s1 @ [RequeueCont sid data]\<rparr>
         else s1)"

text \<open>\<open>blocks.map(block => block.blockedUserId).filter(id => !!id)\<close>.\<close>

definition blocked_ids :: "string option list \<Rightarrow> string list" where
  "blocked_ids blocks = List.map_filter (\<lambda>b. case b of None \<Rightarrow> None
                                              | Some x \<Rightarrow> if truthy x then Some x else None) blocks"

text \<open>\<open>{...preferences, blockedUserIds}\<close>.\<close>

definition with_blocked :: "Preferences option \<Rightarrow> string list \<Rightarrow> Preferences" where
  "with_blocked prefs ids =
     (case prefs of
        None \<Rightarrow> \<lparr>gender = None, region = None, tier = None, blockedUserIds = Some ids\<rparr>
      | Some p \<Rightarrow> p\<lparr>blockedUserIds := Some ids\<rparr>)"

definition server_addUser :: "string \<Rightarrow> string \<Rightarrow> Preferences option \<Rightarrow> Server \<Rightarrow> Server" where
  "server_addUser sid uid prefs s =
     (let (now, e1) = Date_now (env s)
      in s\<lparr>env := e1, mq := addUser now sid uid prefs (mq s)\<rparr>)"

definition requeue_resume ::
  "string \<Rightarrow> SkipData option \<Rightarrow> string option list option \<Rightarrow> Server \<Rightarrow> Server" where
  "requeue_resume sid data fetched s =
     (let dprefs = (case data of None \<Rightarrow> None | Some d \<Rightarrow> sk_preferences d)
      in case (case data of None \<Rightarrow> None | Some d \<Rightarrow> sk_userId d) of
           None \<Rightarrow> s
         | Some uid \<Rightarrow>
             if \<not> truthy sid \<or> \<not> truthy uid then s
             else
               (let prefs = (case fetched of
                               Some blocks \<Rightarrow> Some (with_blocked dprefs (blocked_ids blocks))
                             | None \<Rightarrow> dprefs)
                in emit (ToSocket sid) ''skip-success'' [(''autoRequeue'', JBool True)]
                     (handleMatchmaking sid (server_addUser sid uid prefs s))))"

text \<open>\<open>find-match\<close>: the part before \<open>await Block.find\<close>, and the part after it.\<close>

definition find_match :: "string \<Rightarrow> FindMatchData \<Rightarrow> Server \<Rightarrow> Server" where
  "find_match sid data s =
     (let s1 = (case getMatch sid (mq s) of
                  None \<Rightarrow> s
                | Some existingMatch \<Rightarrow>
                    if truthy existingMatch
                    then s\<lparr>mq := clearMatch sid existingMatch (mq s)\<rparr> else s)
      in s1\<lparr>awaiting := awaiting s1 @ [FindMatchCont sid data]\<rparr>)"

definition find_match_resume ::
  "string \<Rightarrow> FindMatchData \<Rightarrow> string option list option \<Rightarrow> Server \<Rightarrow> Server" where
  "find_match_resume sid data fetched s =
     (if \<not> truthy sid then s
      else
        (let prefs = (case fetched of
                        Some blocks \<Rightarrow> Some (with_blocked (fm_preferences data) (blocked_ids blocks))
                      | None \<Rightarrow> fm_preferences data)
         in handleMatchmaking sid (server_addUser sid (fm_userId data) prefs s)))"

subsection \<open>The event loop\<close>

datatype event =
    Connection string
  | FindMatchEv string FindMatchData
  | CancelMatchEv string
  | SkipEv string "SkipData option"
  | SendMessageEv string string
  | DisconnectEv string
  | TimeoutEv nat
  | BlockFindEv nat "string option list option"

definition run_cancel_listener :: "string \<Rightarrow> listener \<Rightarrow> Server \<Rightarrow> Server" where
  "run_cancel_listener sid l s =
     (case l of
        IndexHandler \<Rightarrow> index_cancel_match sid s
      | DriverHandler i \<Rightarrow> if i < length (drivers s) then driver_cancel_match i s else s)"

definition run_disconnect_listener :: "string \<Rightarrow> listener \<Rightarrow> Server \<Rightarrow> Server" where
  "run_disconnect_listener sid l s =
     (case l of
        IndexHandler \<Rightarrow> index_disconnect sid s
      | DriverHandler i \<Rightarrow> if i < length (drivers s) then driver_disconnect i s else s)"

definition listeners_of :: "(string \<times> listener list) list \<Rightarrow> string \<Rightarrow> listener list" where
  "listeners_of reg sid = (case map_of reg sid of None \<Rightarrow> [] | Some ls \<Rightarrow> ls)"

text \<open>socket.io takes the socket out of \<open>io.sockets.sockets\<close> before the \<open>disconnect\<close>
  listeners run.\<close>

definition disconnect :: "string \<Rightarrow> Server \<Rightarrow> Server" where
  "disconnect sid s =
     foldl (\<lambda>st l. run_disconnect_listener sid l st)
       (s\<lparr>sockets := AList.delete sid (sockets s)\<rparr>)
       (listeners_of (disconnect_listeners s) sid)"

definition cancel_match :: "string \<Rightarrow> Server \<Rightarrow> Server" where
  "cancel_match sid s =
     foldl (\<lambda>st l. run_cancel_listener sid l st) s (listeners_of (cancel_listeners s) sid)"

definition connection :: "string \<Rightarrow> Server \<Rightarrow> Server" where
  "connection sid s =
     s\<lparr>sockets := AList.update sid True (sockets s),
       cancel_listeners := AList.update sid [IndexHandler] (cancel_listeners s),
       disconnect_listeners := AList.update sid [IndexHandler] (disconnect_listeners s)\<rparr>"

definition timeout_fire :: "nat \<Rightarrow> Server \<Rightarrow> Server" where
  "timeout_fire h s =
     (case map_of (timers s) h of
        None \<Rightarrow> s
      | Some t \<Rightarrow>
          (let s1 = s\<lparr>timers := AList.delete h (timers s)\<rparr>
           in case t of
                PollTimer i delay \<Rightarrow> poll_fire i s1
              | RequeueTimer sid data delay \<Rightarrow> requeue_fire sid data s1))"

definition block_find_settled :: "nat \<Rightarrow> string option list option \<Rightarrow> Server \<Rightarrow> Server" where
  "block_find_settled k fetched s =
     (if k < length (awaiting s) then
        (let s1 = s\<lparr>awaiting := take k (awaiting s) @ drop (Suc k) (awaiting s)\<rparr>
         in case awaiting s ! k of
              FindMatchCont sid data \<Rightarrow> find_match_resume sid data fetched s1
            | RequeueCont sid data \<Rightarrow> requeue_resume sid data fetched s1)
      else s)"

definition step :: "(string \<Rightarrow> bool) \<Rightarrow> event \<Rightarrow> Server \<Rightarrow> Server" where
  "step isProfane ev s =
     (case ev of
        Connection sid \<Rightarrow> connection sid s
      | FindMatchEv sid data \<Rightarrow> if socket_exists sid s then find_match sid data s else s
      | CancelMatchEv sid \<Rightarrow> if socket_exists sid s then cancel_match sid s else s
      | SkipEv sid data \<Rightarrow> if socket_exists sid s then skip sid data s else s
      | SendMessageEv sid message \<Rightarrow>
          if socket_exists sid s then send_message isProfane sid message s else s
      | DisconnectEv sid \<Rightarrow> if socket_exists sid s then disconnect sid s else s
      | TimeoutEv h \<Rightarrow> timeout_fire h s
      | BlockFindEv k fetched \<Rightarrow> block_find_settled k fetched s)"

definition run_events :: "(string \<Rightarrow> bool) \<Rightarrow> event list \<Rightarrow> Server \<Rightarrow> Server" where
  "run_events isProfane evs s = foldl (\<lambda>st ev. step isProfane ev st) s evs"

text \<open>Modelled from the spec: the names of the outbound events in the client-facing protocol
  table of section 6 of the specification, which is a document and not code.\<close>

definition spec_outbound_events :: "string list" where
  "spec_outbound_events =
     [''searching'', ''match-found'', ''match-cancelled'', ''match-ended'', ''receive-message'',
      ''message-blocked'', ''user-typing'', ''user-stopped-typing'', ''offer'', ''answer'',
      ''ice-candidate'', ''peer-video-toggle'', ''peer-audio-toggle'', ''matchmaking-stopped'',
      ''skip-success'']"

text \<open>Two sessions connect and ask for a match; the second one's first poll pairs them.\<close>

definition paired_history :: "event list" where
  "paired_history =
     [Connection ''s1'', Connection ''s2'',
      FindMatchEv ''s1'' \<lparr>fm_userId = ''u1'', fm_preferences = None\<rparr>, BlockFindEv 0 (Some []),
      FindMatchEv ''s2'' \<lparr>fm_userId = ''u2'', fm_preferences = None\<rparr>, BlockFindEv 0 (Some [])]"

definition paired_server :: Server where
  "paired_server = run_events (\<lambda>m. False) paired_history (new_Server env0)"

(*PROPERTIES*)

section \<open>Properties of the queue operations\<close>

subsection \<open>What each operation does to the queue keys and to the pairing table\<close>


lemma removeUser_matches:
  "matches (removeUser sid km q) =
     (if km then matches q
      else case map_of (matches q) sid of
             None \<Rightarrow> matches q
           | Some m \<Rightarrow> if truthy m then AList.delete m (AList.delete sid (matches q))
                       else matches q)"
  by (simp add: removeUser_def Let_def split: option.splits)

lemma removeUser_matches_keep: "matches (removeUser sid True q) = matches q"
  by (simp add: removeUser_matches)



lemma removeUser_matches_cases:
  "map_of (matches (removeUser sid km q)) = map_of (matches q)
   \<or> (\<exists>m. map_of (matches q) sid = Some m
          \<and> map_of (matches (removeUser sid km q)) = (map_of (matches q))(sid := None, m := None))"
proof (cases "map_of (matches q) sid")
  case None
  then show ?thesis by (simp add: removeUser_matches)
next
  case (Some p)
  then show ?thesis by (simp add: removeUser_matches AList.delete_conv')
qed


lemma addUser_matches:
  "matches (addUser now sid uid prefs q) = matches (removeUser sid False q)"
  by (simp add: addUser_def Let_def split: option.splits)

lemma findMatch_state:
  "snd (snd (findMatch sid e q)) =
     (if isMatched sid q then q
      else case map_of (queue q) sid of
             None \<Rightarrow> q
           | Some u0 \<Rightarrow> q\<lparr>queue := AList.update sid (touch_user (fst (Date_now e)) u0) (queue q)\<rparr>)"
  by (simp add: findMatch_def Let_def split: option.splits prod.splits list.splits)


lemma findMatch_matches:
  "matches (snd (snd (findMatch sid e q))) = matches q"
  by (simp add: findMatch_state split: option.splits)


lemma createMatch_matches:
  "map_of (matches (createMatch s1 s2 q)) = (map_of (matches q))(s1 \<mapsto> s2, s2 \<mapsto> s1)"
  by (simp add: createMatch_def removeUser_matches_keep AList.update_conv')


lemma clearMatch_matches:
  "map_of (matches (clearMatch s1 s2 q)) = (map_of (matches q))(s1 := None, s2 := None)"
  by (simp add: clearMatch_def AList.delete_conv')

subsection \<open>Queue and pairing table stay apart\<close>






subsection \<open>Symmetry of the pairing table\<close>

lemma pairing_sym_drop_pair:
  assumes sy: "\<forall>a b. M a = Some b \<longrightarrow> M b = Some a" and sm: "M s = Some m"
  shows "\<forall>a b. (M(s := None, m := None)) a = Some b \<longrightarrow> (M(s := None, m := None)) b = Some a"
proof (intro allI impI)
  fix a b
  assume h: "(M(s := None, m := None)) a = Some b"
  have a1: "a \<noteq> s" using h by (cases "a = s") (simp_all split: if_splits)
  have a2: "a \<noteq> m" using h by (cases "a = m") simp_all
  have a3: "M a = Some b" using h a1 a2 by simp
  have ba: "M b = Some a" by (rule sy[rule_format, OF a3])
  have ms: "M m = Some s" by (rule sy[rule_format, OF sm])
  have b1: "b \<noteq> s" using ba sm a2 by (cases "b = s") simp_all
  have b2: "b \<noteq> m" using ba ms a1 by (cases "b = m") simp_all
  show "(M(s := None, m := None)) b = Some a" using ba b1 b2 by simp
qed

lemma pairing_sym_cong:
  "map_of (matches q') = map_of (matches q) \<Longrightarrow> pairing_sym q' = pairing_sym q"
  by (simp add: pairing_sym_def)

lemma pairing_sym_removeUser:
  assumes s: "pairing_sym q"
  shows "pairing_sym (removeUser sid km q)"
proof -
  have q: "\<forall>a b. map_of (matches q) a = Some b \<longrightarrow> map_of (matches q) b = Some a"
    using s unfolding pairing_sym_def .
  from removeUser_matches_cases[of sid km q] show ?thesis
  proof (elim disjE exE conjE)
    assume same: "map_of (matches (removeUser sid km q)) = map_of (matches q)"
    show ?thesis using s pairing_sym_cong[OF same] by (simp only:)
  next
    fix m
    assume d1: "map_of (matches q) sid = Some m"
      and d2: "map_of (matches (removeUser sid km q)) = (map_of (matches q))(sid := None, m := None)"
    have "\<forall>a b. ((map_of (matches q))(sid := None, m := None)) a = Some b
               \<longrightarrow> ((map_of (matches q))(sid := None, m := None)) b = Some a"
      using q d1 by (rule pairing_sym_drop_pair)
    then show ?thesis unfolding pairing_sym_def d2 .
  qed
qed

lemma pairing_sym_createMatch:
  assumes s: "pairing_sym q"
    and n1: "map_of (matches q) s1 = None" and n2: "map_of (matches q) s2 = None"
  shows "pairing_sym (createMatch s1 s2 q)"
  unfolding pairing_sym_def createMatch_matches
proof (intro allI impI)
  fix a b
  let ?M = "map_of (matches q)"
  assume h: "(?M(s1 \<mapsto> s2, s2 \<mapsto> s1)) a = Some b"
  have sy: "?M x = Some y \<Longrightarrow> ?M y = Some x" for x y
    using s unfolding pairing_sym_def by (rule allE, elim allE impE)
  show "(?M(s1 \<mapsto> s2, s2 \<mapsto> s1)) b = Some a"
  proof (cases "a = s1 \<or> a = s2")
    case True
    then show ?thesis using h by (auto split: if_splits)
  next
    case False
    then have ab: "?M a = Some b" using h by (simp split: if_splits)
    have ba: "?M b = Some a" by (rule sy[OF ab])
    have "b \<noteq> s1" using ba n1 by (cases "b = s1") simp_all
    moreover have "b \<noteq> s2" using ba n2 by (cases "b = s2") simp_all
    ultimately show ?thesis using ba by simp
  qed
qed

lemma pairing_sym_clearMatch:
  assumes s: "pairing_sym q" and p: "map_of (matches q) s1 = Some s2"
  shows "pairing_sym (clearMatch s1 s2 q)"
proof -
  have q: "\<forall>a b. map_of (matches q) a = Some b \<longrightarrow> map_of (matches q) b = Some a"
    using s unfolding pairing_sym_def .
  have "\<forall>a b. ((map_of (matches q))(s1 := None, s2 := None)) a = Some b
               \<longrightarrow> ((map_of (matches q))(s1 := None, s2 := None)) b = Some a"
    using q p by (rule pairing_sym_drop_pair)
  then show ?thesis unfolding pairing_sym_def clearMatch_matches .
qed

lemma pairing_sym_step:
  assumes s: "pairing_sym q" and g: "op_guard opn q"
  shows "pairing_sym (apply_op opn q)"
proof (cases opn)
  case (AddUser now sid uid prefs)
  have "pairing_sym (addUser now sid uid prefs q) = pairing_sym (removeUser sid False q)"
    by (rule pairing_sym_cong) (simp only: addUser_matches)
  then show ?thesis using pairing_sym_removeUser[OF s, of sid False] AddUser
    by (simp only: apply_op.simps)
next
  case (RemoveUser sid km)
  show ?thesis unfolding RemoveUser apply_op.simps by (rule pairing_sym_removeUser[OF s])
next
  case (FindMatch sid e)
  have "pairing_sym (snd (snd (findMatch sid e q))) = pairing_sym q"
    by (rule pairing_sym_cong) (simp only: findMatch_matches)
  then show ?thesis using s FindMatch by (simp only: apply_op.simps)
next
  case (CreateMatch s1 s2)
  have "map_of (matches q) s1 = None" "map_of (matches q) s2 = None"
    using g CreateMatch by (simp_all add: isMatched_def)
  then show ?thesis unfolding CreateMatch apply_op.simps by (rule pairing_sym_createMatch[OF s])
next
  case (ClearMatch s1 s2)
  have "map_of (matches q) s1 = Some s2"
    using g ClearMatch by (simp add: getMatch_def)
  then show ?thesis unfolding ClearMatch apply_op.simps by (rule pairing_sym_clearMatch[OF s])
qed

lemma pairing_sym_run: "pairing_sym q \<Longrightarrow> guarded ops q \<Longrightarrow> pairing_sym (run_ops ops q)"
proof (induction ops arbitrary: q)
  case Nil
  then show ?case by (simp only: run_ops_def foldl.simps)
next
  case (Cons opn ops)
  have g: "op_guard opn q" "guarded ops (apply_op opn q)" using Cons.prems(2) by simp_all
  have "pairing_sym (apply_op opn q)" by (rule pairing_sym_step[OF Cons.prems(1) g(1)])
  then have "pairing_sym (run_ops ops (apply_op opn q))" using g(2) by (rule Cons.IH)
  then show ?case by (simp only: run_ops_def foldl.simps)
qed

text \<open>
  Claim C2, as stated, fails: \<open>clearMatch\<close> deletes the two keys it is given whether or not
  they are partners, and \<open>createMatch\<close> overwrites an existing pairing. After
  \<open>createMatch('a','b')\<close> and \<open>clearMatch('a','c')\<close>, \<open>getMatch('b')\<close> is \<open>'a'\<close>
  while \<open>getMatch('a')\<close> is undefined; after \<open>createMatch('a','c')\<close> and
  \<open>createMatch('a','b')\<close>, \<open>getMatch('c')\<close> is \<open>'a'\<close> while \<open>getMatch('a')\<close> is \<open>'b'\<close>.
\<close>

theorem C2_arbitrary_clear_counterexample:
  "(getMatch ''b'' (run_ops [CreateMatch ''a'' ''b'', ClearMatch ''a'' ''c''] new_MatchmakingQueue)
      = Some ''a''
    \<and> getMatch ''a'' (run_ops [CreateMatch ''a'' ''b'', ClearMatch ''a'' ''c''] new_MatchmakingQueue)
      \<noteq> Some ''b'')
   \<and> (getMatch ''c'' (run_ops [CreateMatch ''a'' ''c'', CreateMatch ''a'' ''b''] new_MatchmakingQueue)
      = Some ''a''
    \<and> getMatch ''a'' (run_ops [CreateMatch ''a'' ''c'', CreateMatch ''a'' ''b''] new_MatchmakingQueue)
      \<noteq> Some ''c'')"
  by (simp add: run_ops_def createMatch_def clearMatch_def removeUser_def new_MatchmakingQueue_def
      getMatch_def Let_def)

text \<open>
  Claim C2, amended: for every sequence of queue operations from the empty state in which
  \<open>createMatch\<close> is applied only to two sessions that are both unmatched and \<open>clearMatch\<close>
  only to a session and its current partner, the pairing relation is symmetric: whenever
  \<open>getMatch(A) = B\<close>, also \<open>getMatch(B) = A\<close>. \<open>addUser\<close>, \<open>findMatch\<close> and \<open>removeUser\<close>
  take arbitrary arguments. The history is arbitrary, so this holds after every operation.
\<close>

theorem C2_pairing_symmetric:
  assumes g: "guarded ops new_MatchmakingQueue"
    and m: "getMatch a (run_ops ops new_MatchmakingQueue) = Some b"
  shows "getMatch b (run_ops ops new_MatchmakingQueue) = Some a"
proof -
  have "pairing_sym new_MatchmakingQueue" by (simp add: pairing_sym_def new_MatchmakingQueue_def)
  then have "pairing_sym (run_ops ops new_MatchmakingQueue)" using g by (rule pairing_sym_run)
  then have "\<forall>a b. map_of (matches (run_ops ops new_MatchmakingQueue)) a = Some b
       \<longrightarrow> map_of (matches (run_ops ops new_MatchmakingQueue)) b = Some a"
    unfolding pairing_sym_def .
  then show ?thesis using m unfolding getMatch_def by (elim allE impE)
qed

theorem C2_pairing_symmetric_witness:
  "guarded history2 new_MatchmakingQueue
   \<and> getMatch ''s1'' (run_ops history2 new_MatchmakingQueue) = Some ''s2''
   \<and> getMatch ''s2'' (run_ops history2 new_MatchmakingQueue) = Some ''s1''"
proof -
  have g: "guarded history2 new_MatchmakingQueue" by code_simp
  have m: "getMatch ''s1'' (run_ops history2 new_MatchmakingQueue) = Some ''s2''" by code_simp
  show ?thesis using g m C2_pairing_symmetric[OF g m] by simp
qed

subsection \<open>Compatibility\<close>

lemma region_clause:
  "(hasRegionFilter u \<and> preferences u \<noteq> None
      \<and> (let matchRegion = pref_region c
          in \<not> truthy_opt matchRegion \<or> matchRegion = Some ''any'' \<or> pref_region u \<noteq> matchRegion))
   \<longleftrightarrow> \<not> (\<forall>r. pref_region u = Some r \<and> r \<noteq> [] \<and> r \<noteq> ''any'' \<longrightarrow> pref_region c = Some r)"
  by (cases "pref_region u"; cases "pref_region c")
     (auto simp: hasRegionFilter_def truthy_opt_def truthy_def pref_region_def Let_def
        split: option.splits)

lemma gender_clause:
  "(hasGenderFilter u \<and> preferences u \<noteq> None
      \<and> (let matchGender = pref_gender c
          in \<not> truthy_opt matchGender \<or> matchGender = Some ''any'' \<or> pref_gender u \<noteq> matchGender))
   \<longleftrightarrow> \<not> (\<forall>g. pref_gender u = Some g \<and> g \<noteq> [] \<and> g \<noteq> ''any'' \<longrightarrow> pref_gender c = Some g)"
  by (cases "pref_gender u"; cases "pref_gender c")
     (auto simp: hasGenderFilter_def truthy_opt_def truthy_def pref_gender_def Let_def
        split: option.splits)

lemma guard_chain:
  "(if A then False else if B then False else if C then False else if R then False
    else if G then False else True) = (\<not> A \<and> \<not> B \<and> \<not> C \<and> \<not> R \<and> \<not> G)"
  by simp

lemma areCompatible_iff:
  "areCompatible q u c \<longleftrightarrow>
      socketId c \<noteq> socketId u
      \<and> \<not> isMatched (socketId c) q
      \<and> userId c \<notin> (case blockedUsers u of None \<Rightarrow> {} | Some b \<Rightarrow> b)
      \<and> userId u \<notin> (case blockedUsers c of None \<Rightarrow> {} | Some b \<Rightarrow> b)
      \<and> (\<forall>r. pref_region u = Some r \<and> r \<noteq> [] \<and> r \<noteq> ''any'' \<longrightarrow> pref_region c = Some r)
      \<and> (\<forall>g. pref_gender u = Some g \<and> g \<noteq> [] \<and> g \<noteq> ''any'' \<longrightarrow> pref_gender c = Some g)"
proof -
  have b: "has_opt s x \<longleftrightarrow> x \<in> (case s of None \<Rightarrow> {} | Some b \<Rightarrow> b)" for s x
    by (simp add: has_opt_def split: option.splits)
  have "areCompatible q u c =
     (\<not> socketId c = socketId u
      \<and> \<not> map_of (matches q) (socketId c) \<noteq> None
      \<and> \<not> (has_opt (blockedUsers u) (userId c) \<or> has_opt (blockedUsers c) (userId u))
      \<and> \<not> (hasRegionFilter u \<and> preferences u \<noteq> None
              \<and> (let matchRegion = pref_region c
                  in \<not> truthy_opt matchRegion \<or> matchRegion = Some ''any''
                     \<or> pref_region u \<noteq> matchRegion))
      \<and> \<not> (hasGenderFilter u \<and> preferences u \<noteq> None
              \<and> (let matchGender = pref_gender c
                  in \<not> truthy_opt matchGender \<or> matchGender = Some ''any''
                     \<or> pref_gender u \<noteq> matchGender)))"
    unfolding areCompatible_def by (rule guard_chain)
  then show ?thesis
    unfolding region_clause gender_clause b isMatched_def
    by (simp only: not_not de_Morgan_disj conj_assoc)
qed

lemma areCompatible_no_filter:
  "\<not> hasRegionFilter u \<Longrightarrow> \<not> hasGenderFilter u
   \<Longrightarrow> areCompatible q u (c\<lparr>preferences := p\<rparr>) = areCompatible q u c"
  by (simp add: areCompatible_def)

text \<open>
  Claim C8: \<open>areCompatible(U, C)\<close> is true exactly when C's SessionID differs from U's, C is
  not a key of the pairing table, neither block set holds the other's UserID (the sets are
  compared with \<open>userId\<close>, not \<open>socketId\<close>), and for region and for gender: if U's
  preference is set (present and non-empty, as JavaScript truthiness reads it) and is not
  \<open>'any'\<close>, C's preference equals it. C's preferences do not filter U: when U sets neither
  filter, the result does not depend on C's preferences at all.
\<close>

theorem C8_areCompatible_iff:
  "(areCompatible q u c \<longleftrightarrow>
      socketId c \<noteq> socketId u
      \<and> \<not> isMatched (socketId c) q
      \<and> userId c \<notin> (case blockedUsers u of None \<Rightarrow> {} | Some b \<Rightarrow> b)
      \<and> userId u \<notin> (case blockedUsers c of None \<Rightarrow> {} | Some b \<Rightarrow> b)
      \<and> (\<forall>r. pref_region u = Some r \<and> r \<noteq> [] \<and> r \<noteq> ''any'' \<longrightarrow> pref_region c = Some r)
      \<and> (\<forall>g. pref_gender u = Some g \<and> g \<noteq> [] \<and> g \<noteq> ''any'' \<longrightarrow> pref_gender c = Some g))
   \<and> (\<not> hasRegionFilter u \<and> \<not> hasGenderFilter u
        \<longrightarrow> areCompatible q u (c\<lparr>preferences := p\<rparr>) = areCompatible q u c)"
  by (rule conjI[OF areCompatible_iff]) (simp add: areCompatible_no_filter)

theorem C8_areCompatible_iff_witness:
  "areCompatible new_MatchmakingQueue user_eu cand_eu
   \<and> \<not> areCompatible new_MatchmakingQueue user_eu (cand_eu\<lparr>userId := ''u9''\<rparr>)
   \<and> \<not> areCompatible new_MatchmakingQueue cand_eu
         (user_eu\<lparr>preferences := Some \<lparr>gender = Some ''male'', region = Some ''us'',
                                         tier = None, blockedUserIds = None\<rparr>\<rparr>)"
  using C8_areCompatible_iff[of new_MatchmakingQueue user_eu cand_eu]
    C8_areCompatible_iff[of new_MatchmakingQueue user_eu "cand_eu\<lparr>userId := ''u9''\<rparr>"]
    C8_areCompatible_iff[of new_MatchmakingQueue cand_eu
      "user_eu\<lparr>preferences := Some \<lparr>gender = Some ''male'', region = Some ''us'',
                                       tier = None, blockedUserIds = None\<rparr>\<rparr>"]
  by (simp add: user_eu_def cand_eu_def new_MatchmakingQueue_def isMatched_def pref_region_def
      pref_gender_def)

subsection \<open>findMatch\<close>





















end
